theory Spec2Isabelle
  imports Main "HOL-Library.Sublist"
begin

section \<open>Bucket I/O facade of aoupy (\<open>src/aoupy/bucket.py\<close>)\<close>

text \<open>
  The module is a thin layer of Python over three collaborators: the local operating
  system (environment, file system), a storage command-line tool run through the shell,
  and the polars dataframe library. The embedding makes all three explicit:
  \<^item> the process and its surroundings are a record \<open>world\<close> that every operation takes
    and returns;
  \<^item> the command-line tool is a parameter \<open>sh\<close>: given the command string and the
    current world it answers with an exit status, the bytes it wrote to its standard
    output and the world it left behind. Nothing is assumed about it;
  \<^item> of polars, the CSV parser and the CSV writer are parameters (record \<open>polars\<close>);
    a dataframe is a list of column names with rows of text;
  \<^item> a Python exception is a value \<open>Inl e\<close>; the world returned with it is the world
    at the moment of the raise.

  A Python \<open>str\<close> is represented by its UTF-8 encoding, a list of 8-bit \<open>char\<close>s.
  Concatenation, equality, \<open>split\<close> on an ASCII character and \<open>replace\<close> of a non-empty
  pattern commute with that encoding.
\<close>

subsection \<open>Python values\<close>

datatype error =
    ValueError string
  | TypeError
  | AttributeError
  | CalledProcessError int
  | UnicodeDecodeError
  | FileNotFoundError string
  | FileExistsError string
  | NotADirectoryError string
  | OSError string
  | ShapeError
  | ComputeError

text \<open>The single quote and the newline, which a string literal cannot hold.\<close>

definition sq :: string where
  "sq = [CHR 0x27]"

definition nl :: char where
  "nl = CHR 0x0A"

text \<open>How an f-string renders an optional string: \<open>None\<close> prints as the word None.\<close>

fun fmt :: "string option \<Rightarrow> string" where
  "fmt None = ''None''"
| "fmt (Some s) = s"

text \<open>
  \<open>s.split(c)\<close> for a separator of one character: the pieces between the occurrences
  of \<open>c\<close>, empty pieces included; never the empty list.
\<close>

fun split_on :: "char \<Rightarrow> string \<Rightarrow> string list" where
  "split_on c [] = [[]]"
| "split_on c (x # xs) =
     (if x = c then [] # split_on c xs
      else (case split_on c xs of
              [] \<Rightarrow> [[x]]
            | p # ps \<Rightarrow> (x # p) # ps))"

text \<open>\<open>sep.join(parts)\<close>.\<close>

fun join :: "string \<Rightarrow> string list \<Rightarrow> string" where
  "join sep [] = []"
| "join sep [p] = p"
| "join sep (p # q # ps) = p @ sep @ join sep (q # ps)"

text \<open>
  \<open>s.replace(old, new)\<close>: every occurrence of \<open>old\<close>, found from the left and
  without overlap, becomes \<open>new\<close>. For the empty pattern Python inserts \<open>new\<close> in
  front of every character and at the end; a character starts at each byte that is not
  a UTF-8 continuation byte.
\<close>

definition is_cont :: "char \<Rightarrow> bool" where
  "is_cont c \<longleftrightarrow> (128::nat) \<le> of_char c \<and> (of_char c :: nat) < 192"

function replace_str :: "string \<Rightarrow> string \<Rightarrow> string \<Rightarrow> string" where
  "replace_str old new [] = (if old = [] then new else [])"
| "replace_str old new (c # cs) =
     (if old = [] then (if is_cont c then c # replace_str old new cs
                        else new @ c # replace_str old new cs)
      else if prefix old (c # cs) then new @ replace_str old new (drop (length old) (c # cs))
      else c # replace_str old new cs)"
  by pat_completeness auto
termination
  by (relation "measure (\<lambda>(old, new, s). length s)") auto

text \<open>
  \<open>bytes.decode('utf-8')\<close>: the strict decoder accepts exactly the well-formed byte
  sequences of the Unicode standard (no overlong forms, no surrogates, nothing above
  U+10FFFF). The text it returns is represented by the same bytes.
\<close>

fun utf8_ok :: "nat list \<Rightarrow> bool" where
  "utf8_ok [] = True"
| "utf8_ok (a # bs) =
     (if a < 0x80 then utf8_ok bs
      else if 0xC2 \<le> a \<and> a \<le> 0xDF then
        (case bs of b # r \<Rightarrow> 0x80 \<le> b \<and> b \<le> 0xBF \<and> utf8_ok r | _ \<Rightarrow> False)
      else if 0xE0 \<le> a \<and> a \<le> 0xEF then
        (case bs of b # c # r \<Rightarrow>
             (if a = 0xE0 then 0xA0 else 0x80) \<le> b \<and> b \<le> (if a = 0xED then 0x9F else 0xBF)
             \<and> 0x80 \<le> c \<and> c \<le> 0xBF \<and> utf8_ok r
         | _ \<Rightarrow> False)
      else if 0xF0 \<le> a \<and> a \<le> 0xF4 then
        (case bs of b # c # d # r \<Rightarrow>
             (if a = 0xF0 then 0x90 else 0x80) \<le> b \<and> b \<le> (if a = 0xF4 then 0x8F else 0xBF)
             \<and> 0x80 \<le> c \<and> c \<le> 0xBF \<and> 0x80 \<le> d \<and> d \<le> 0xBF \<and> utf8_ok r
         | _ \<Rightarrow> False)
      else False)"

definition decode_utf8 :: "string \<Rightarrow> error + string" where
  "decode_utf8 bs = (if utf8_ok (map of_char bs) then Inr bs else Inl UnicodeDecodeError)"

text \<open>
  \<open>functools.reduce(f, xs)\<close> without an initial value, for an \<open>f\<close> that may raise:
  the empty sequence is a \<open>TypeError\<close>, otherwise the elements are folded from the left.
\<close>

fun reduce_from :: "('a \<Rightarrow> 'a \<Rightarrow> error + 'a) \<Rightarrow> 'a \<Rightarrow> 'a list \<Rightarrow> error + 'a" where
  "reduce_from f acc [] = Inr acc"
| "reduce_from f acc (y # ys) =
     (case f acc y of Inl e \<Rightarrow> Inl e | Inr acc' \<Rightarrow> reduce_from f acc' ys)"

fun reduce :: "('a \<Rightarrow> 'a \<Rightarrow> error + 'a) \<Rightarrow> 'a list \<Rightarrow> error + 'a" where
  "reduce f [] = Inl TypeError"
| "reduce f (x # xs) = reduce_from f x xs"

subsection \<open>The world: environment, local file system, bucket, output\<close>

text \<open>
  A place in the file system is the list of names that leads to it from the root.
  \<open>dirs\<close> holds the places that are directories (the root always is one), \<open>files\<close>
  the regular files with their contents, \<open>cwd\<close> the working directory of the process.
  There are no symbolic links and no permissions. \<open>bucket\<close> is the remote side, whatever
  it is; only the command-line tool touches it. \<open>stdout\<close> is what has been written to
  the terminal and \<open>calls\<close> the commands handed to the shell, oldest first.
\<close>

record 'b world =
  environ :: "string \<rightharpoonup> string"
  cwd :: "string list"
  dirs :: "string list set"
  files :: "string list \<rightharpoonup> string"
  bucket :: 'b
  stdout :: string
  calls :: "string list"

type_synonym 'b shell = "string \<Rightarrow> 'b world \<Rightarrow> int \<times> string \<times> 'b world"

definition getenv :: "string \<Rightarrow> 'b world \<Rightarrow> string option" where
  "getenv name w = environ w name"

text \<open>\<open>print(s)\<close>.\<close>

definition print :: "string \<Rightarrow> 'b world \<Rightarrow> 'b world" where
  "print s w = w\<lparr>stdout := stdout w @ s @ [nl]\<rparr>"

text \<open>
  \<open>os.system(cmd)\<close>: the command runs with the terminal as its standard output. The
  child changes the file system and the bucket as it pleases, not the environment or the
  working directory of this process. The exit status is returned; every caller in the
  module drops it.
\<close>

definition os_system :: "'b shell \<Rightarrow> string \<Rightarrow> 'b world \<Rightarrow> int \<times> 'b world" where
  "os_system sh cmd w =
     (case sh cmd w of (st, out, w') \<Rightarrow>
        (st, w\<lparr>dirs := dirs w', files := files w', bucket := bucket w',
               stdout := stdout w @ out, calls := calls w @ [cmd]\<rparr>))"

text \<open>
  \<open>subprocess.check_output(cmd, shell=True)\<close>: the output is captured instead of
  shown, and a non-zero exit status raises \<open>CalledProcessError\<close>.
\<close>

definition check_output :: "'b shell \<Rightarrow> string \<Rightarrow> 'b world \<Rightarrow> (error + string) \<times> 'b world" where
  "check_output sh cmd w =
     (case sh cmd w of (st, out, w') \<Rightarrow>
        (if st \<noteq> 0 then Inl (CalledProcessError st) else Inr out,
         w\<lparr>dirs := dirs w', files := files w', bucket := bucket w',
           calls := calls w @ [cmd]\<rparr>))"

subsection \<open>Paths\<close>

text \<open>
  How the operating system resolves a path, component by component: an empty component
  and \<open>.\<close> stay where they are, \<open>..\<close> goes to the parent (the root is its own
  parent), a name goes down. Whatever is passed through must be a directory: a missing
  one is \<open>ENOENT\<close>, a regular file \<open>ENOTDIR\<close>. The place reached need not exist.
\<close>

datatype errno = ENOENT | ENOTDIR

definition is_directory :: "'b world \<Rightarrow> string list \<Rightarrow> bool" where
  "is_directory w q \<longleftrightarrow> q = [] \<or> q \<in> dirs w"

fun walk :: "'b world \<Rightarrow> string list \<Rightarrow> string list \<Rightarrow> errno + string list" where
  "walk w cur [] = Inr cur"
| "walk w cur (c # cs) =
     (if \<not> is_directory w cur then Inl (if files w cur \<noteq> None then ENOTDIR else ENOENT)
      else if c = [] \<or> c = ''.'' then walk w cur cs
      else if c = ''..'' then walk w (butlast cur) cs
      else walk w (cur @ [c]) cs)"

text \<open>A path that starts with a slash is resolved from the root, any other from the
  working directory; the empty path names nothing.\<close>

definition start :: "string \<Rightarrow> 'b world \<Rightarrow> string list" where
  "start p w = (if hd p = CHR ''/'' then [] else cwd w)"

definition resolve :: "string \<Rightarrow> 'b world \<Rightarrow> errno + string list" where
  "resolve p w = (if p = [] then Inl ENOENT else walk w (start p w) (split_on (CHR ''/'') p))"

text \<open>The exception Python's \<open>os\<close> module raises for an error number.\<close>

fun os_error :: "errno \<Rightarrow> string \<Rightarrow> error" where
  "os_error ENOENT p = FileNotFoundError p"
| "os_error ENOTDIR p = NotADirectoryError p"

text \<open>\<open>os.path.isdir(p)\<close> and \<open>os.path.exists(p)\<close>: false where the path does not resolve.\<close>

definition isdir :: "string \<Rightarrow> 'b world \<Rightarrow> bool" where
  "isdir p w = (case resolve p w of Inl e \<Rightarrow> False | Inr q \<Rightarrow> is_directory w q)"

definition exists_path :: "string \<Rightarrow> 'b world \<Rightarrow> bool" where
  "exists_path p w =
     (case resolve p w of Inl e \<Rightarrow> False | Inr q \<Rightarrow> is_directory w q \<or> files w q \<noteq> None)"

text \<open>
  \<open>os.mkdir(p)\<close>: trailing slashes do not count; the place must not exist and its parent
  must be a directory.
\<close>

definition mkdir :: "string \<Rightarrow> 'b world \<Rightarrow> (error + unit) \<times> 'b world" where
  "mkdir p w =
     (if p = [] then (Inl (FileNotFoundError p), w)
      else case walk w (start p w)
                  (rev (dropWhile (\<lambda>c. c = []) (rev (split_on (CHR ''/'') p)))) of
             Inl e \<Rightarrow> (Inl (os_error e p), w)
           | Inr q \<Rightarrow>
               if is_directory w q \<or> files w q \<noteq> None then (Inl (FileExistsError p), w)
               else (Inr (), w\<lparr>dirs := insert q (dirs w)\<rparr>))"

text \<open>
  \<open>os.path.split(p)\<close> of \<open>posixpath\<close>: the tail is what follows the last slash, the head
  what precedes it, without its trailing slashes unless it consists of slashes only.
\<close>

definition py_split :: "string \<Rightarrow> string \<times> string" where
  "py_split p =
     (let tail = rev (takeWhile (\<lambda>c. c \<noteq> CHR ''/'') (rev p));
          head = take (length p - length tail) p
      in (if head \<noteq> [] \<and> (\<exists>c \<in> set head. c \<noteq> CHR ''/'')
          then rev (dropWhile (\<lambda>c. c = CHR ''/'') (rev head)) else head,
          tail))"

text \<open>The first three lines of \<open>os.makedirs\<close>: split, and split the head again when the
  tail is empty.\<close>

definition head_tail :: "string \<Rightarrow> string \<times> string" where
  "head_tail name =
     (let (head, tail) = py_split name
      in if tail = [] then py_split head else (head, tail))"

text \<open>
  \<open>os.makedirs(name)\<close> with \<open>exist_ok\<close> left false, as \<open>os.py\<close> has it: when the head
  does not exist it is made first, a \<open>FileExistsError\<close> from that being passed over, and
  a tail \<open>.\<close> then ends the call; otherwise \<open>mkdir(name)\<close>. Directories made before an
  error stay.
\<close>

fun is_exists_error :: "error \<Rightarrow> bool" where
  "is_exists_error (FileExistsError p) = True"
| "is_exists_error e = False"

function makedirs :: "string \<Rightarrow> 'b world \<Rightarrow> (error + unit) \<times> 'b world" where
  "makedirs name w =
     (if fst (head_tail name) \<noteq> [] \<and> snd (head_tail name) \<noteq> []
         \<and> \<not> exists_path (fst (head_tail name)) w then
        (case makedirs (fst (head_tail name)) w of
           (Inl e, w1) \<Rightarrow>
             if is_exists_error e then
               (if snd (head_tail name) = ''.'' then (Inr (), w1) else mkdir name w1)
             else (Inl e, w1)
         | (Inr u, w1) \<Rightarrow>
             if snd (head_tail name) = ''.'' then (Inr (), w1) else mkdir name w1)
      else mkdir name w)"
  by pat_completeness auto
termination
proof (relation "measure (\<lambda>(name, w). length name)")
  show "wf (measure (\<lambda>(name, w :: 'b world). length name))"
    by simp
next
  fix name :: string and w :: "'b world"
  assume "fst (head_tail name) \<noteq> [] \<and> snd (head_tail name) \<noteq> []
            \<and> \<not> exists_path (fst (head_tail name)) w"
  then have tail: "snd (head_tail name) \<noteq> []"
    by simp
  have sum: "length (fst (py_split p)) + length (snd (py_split p)) \<le> length p" for p
  proof -
    define t where "t = rev (takeWhile (\<lambda>c. c \<noteq> CHR ''/'') (rev p))"
    define h where "h = take (length p - length t) p"
    have t: "length t \<le> length p"
      unfolding t_def by (metis length_rev length_takeWhile_le)
    have strip: "length (rev (dropWhile (\<lambda>c. c = CHR ''/'') (rev h))) \<le> length h"
      by (metis length_dropWhile_le length_rev)
    have h: "length h = length p - length t"
      unfolding h_def by simp
    have "py_split p = (if h \<noteq> [] \<and> (\<exists>c \<in> set h. c \<noteq> CHR ''/'')
                        then rev (dropWhile (\<lambda>c. c = CHR ''/'') (rev h)) else h, t)"
      unfolding py_split_def Let_def t_def h_def by (rule refl)
    then have "length (fst (py_split p)) \<le> length h" and "snd (py_split p) = t"
      using strip by simp_all
    then show ?thesis
      using t h by simp
  qed
  have less: "length (fst (py_split p)) < length p" if "snd (py_split p) \<noteq> []" for p
    using sum [of p] that by (cases "snd (py_split p)") auto
  have le: "length (fst (py_split p)) \<le> length p" for p
    using sum [of p] by simp
  have "length (fst (head_tail name)) < length name"
  proof (cases "snd (py_split name) = []")
    case True
    then have "head_tail name = py_split (fst (py_split name))"
      by (simp add: head_tail_def Let_def case_prod_beta)
    with tail less [of "fst (py_split name)"] le [of name] show ?thesis
      by simp
  next
    case False
    then have "head_tail name = py_split name"
      by (simp add: head_tail_def Let_def case_prod_beta)
    with tail less [of name] show ?thesis
      by simp
  qed
  then show "((fst (head_tail name), w), name, w) \<in> measure (\<lambda>(name, w). length name)"
    by simp
qed

declare makedirs.simps [simp del]

text \<open>
  What polars raises when it cannot open a file: \<open>FileNotFoundError\<close> for a missing
  one, a plain \<open>OSError\<close> otherwise.
\<close>

fun polars_error :: "errno \<Rightarrow> string \<Rightarrow> error" where
  "polars_error ENOENT p = FileNotFoundError p"
| "polars_error ENOTDIR p = OSError p"

text \<open>Creating or truncating the file \<open>p\<close> and storing \<open>content\<close>.\<close>

definition write_file :: "string \<Rightarrow> string \<Rightarrow> 'b world \<Rightarrow> error + 'b world" where
  "write_file p content w =
     (case resolve p w of
        Inl e \<Rightarrow> Inl (polars_error e p)
      | Inr q \<Rightarrow>
          if is_directory w q then Inl (OSError p)
          else Inr (w\<lparr>files := (files w)(q \<mapsto> content)\<rparr>))"

subsection \<open>Dataframes\<close>

text \<open>
  An eager dataframe is its column names and its rows; with \<open>infer_schema=False\<close>
  every cell is text. A lazy frame is the plan to scan one CSV file: it holds the path
  and reads nothing until \<open>collect\<close>.
\<close>

record dataframe =
  columns :: "string list"
  rows :: "string list list"

datatype frame = DataFrame dataframe | LazyFrame string

record polars =
  parse_csv :: "string \<Rightarrow> error + dataframe"
  to_csv :: "dataframe \<Rightarrow> string"

text \<open>
  \<open>pl.read_csv(p, infer_schema=False)\<close>: the file that the path names, the path taken
  as it is written, is opened and parsed.
\<close>

definition read_csv :: "polars \<Rightarrow> string \<Rightarrow> 'b world \<Rightarrow> error + frame" where
  "read_csv pl p w =
     (case resolve p w of
        Inl e \<Rightarrow> Inl (polars_error e p)
      | Inr q \<Rightarrow>
          (case files w q of
             None \<Rightarrow> if is_directory w q then Inl (OSError p) else Inl (FileNotFoundError p)
           | Some content \<Rightarrow>
               (case parse_csv pl content of Inl e \<Rightarrow> Inl e | Inr df \<Rightarrow> Inr (DataFrame df))))"

definition scan_csv :: "string \<Rightarrow> frame" where
  "scan_csv p = LazyFrame p"

text \<open>\<open>df.collect()\<close>: a lazy frame is read now; an eager one has no such method.\<close>

fun collect :: "polars \<Rightarrow> 'b world \<Rightarrow> frame \<Rightarrow> error + frame" where
  "collect pl w (LazyFrame p) = read_csv pl p w"
| "collect pl w (DataFrame df) = Inl AttributeError"

text \<open>
  \<open>x.vstack(y)\<close>: the rows of \<open>y\<close> under the rows of \<open>x\<close>. The two frames must have
  the same columns; a lazy frame has no such method.
\<close>

fun vstack :: "frame \<Rightarrow> frame \<Rightarrow> error + frame" where
  "vstack (DataFrame x) (DataFrame y) =
     (if columns x = columns y then Inr (DataFrame (x\<lparr>rows := rows x @ rows y\<rparr>))
      else Inl ShapeError)"
| "vstack (DataFrame x) (LazyFrame q) = Inl TypeError"
| "vstack (LazyFrame p) y = Inl AttributeError"

text \<open>\<open>df.write_csv(p)\<close>.\<close>

definition write_csv :: "polars \<Rightarrow> dataframe \<Rightarrow> string \<Rightarrow> 'b world \<Rightarrow> error + 'b world" where
  "write_csv pl df p w = write_file p (to_csv pl df) w"

subsection \<open>The operations of \<open>bucket.py\<close>\<close>

text \<open>
  Each operation takes the shell, the arguments of the Python function in their order
  (an argument that may be \<open>None\<close> is an option) and the world. Strings handed to the
  operating system are taken to hold no NUL character.
\<close>

datatype loaded = Frame frame | Frames "frame list"

text \<open>A list comprehension or an appending loop whose body may raise.\<close>

fun traverse :: "('a \<Rightarrow> error + 'c) \<Rightarrow> 'a list \<Rightarrow> error + 'c list" where
  "traverse f [] = Inr []"
| "traverse f (x # xs) =
     (case f x of
        Inl e \<Rightarrow> Inl e
      | Inr y \<Rightarrow> (case traverse f xs of Inl e \<Rightarrow> Inl e | Inr ys \<Rightarrow> Inr (y # ys)))"

text \<open>\<open>copy_from_bucket(file_path, bucket_id=None)\<close>, lines 8 to 32.\<close>

definition copy_from_bucket :: "'b shell \<Rightarrow> string \<Rightarrow> string option \<Rightarrow> 'b world \<Rightarrow> 'b world" where
  "copy_from_bucket sh file_path bucket_id w =
     (let bucket_id = (if bucket_id = None then getenv ''WORKSPACE_BUCKET'' w else bucket_id);
          (st, w1) = os_system sh (''gsutil cp '' @ sq @ fmt bucket_id @ ''/'' @ file_path @ sq @ '' .'') w
      in print (''[INFO] '' @ file_path @ '' is successfully downloaded into your working space'') w1)"

text \<open>
  \<open>ls_bucket(target=None, bucket_id=None, return_list=False)\<close>, lines 123 to 153;
  \<open>ls_cmd\<close> is its local \<open>cmd\<close>, lines 145 to 148.
\<close>

definition ls_cmd :: "string option \<Rightarrow> string option \<Rightarrow> string" where
  "ls_cmd target bucket_id =
     (if target = None then ''gsutil ls '' @ fmt bucket_id
      else ''gsutil ls '' @ fmt bucket_id @ ''/'' @ fmt target)"

definition ls_bucket ::
  "'b shell \<Rightarrow> string option \<Rightarrow> string option \<Rightarrow> bool \<Rightarrow> 'b world
     \<Rightarrow> (error + string list option) \<times> 'b world" where
  "ls_bucket sh target bucket_id return_list w =
     (let bucket_id = (if bucket_id = None then getenv ''WORKSPACE_BUCKET'' w else bucket_id);
          cmd = ls_cmd target bucket_id
      in if return_list then
           (case check_output sh cmd w of
              (Inl e, w1) \<Rightarrow> (Inl e, w1)
            | (Inr out, w1) \<Rightarrow>
                (case decode_utf8 out of
                   Inl e \<Rightarrow> (Inl e, w1)
                 | Inr txt \<Rightarrow> (Inr (Some (butlast (split_on nl txt))), w1)))
         else (Inr None, snd (os_system sh cmd w)))"

text \<open>The command \<open>gcloud storage cp 'src' 'dst'\<close>, both operands in single quotes.\<close>

definition gcloud_cp :: "string \<Rightarrow> string \<Rightarrow> string" where
  "gcloud_cp src dst = ''gcloud storage cp '' @ sq @ src @ sq @ '' '' @ sq @ dst @ sq"

text \<open>
  \<open>read_from_bucket\<close>, lines 63 to 75: one file. The four branches are those of the
  source, in its order; the conditions are exhaustive, so the last one is the \<open>else\<close>.
\<close>

definition read_file ::
  "'b shell \<Rightarrow> polars \<Rightarrow> string \<Rightarrow> string option \<Rightarrow> string option \<Rightarrow> bool \<Rightarrow> 'b world
     \<Rightarrow> (error + loaded) \<times> 'b world" where
  "read_file sh pl file_name file_folder bucket_id lazy w =
     (if file_folder = None \<and> lazy then
        (let w1 = snd (os_system sh
                   (gcloud_cp (fmt bucket_id @ ''/'' @ file_name) ''bucket_io'') w)
         in (Inr (Frame (scan_csv (''bucket_io/'' @ file_name))), w1))
      else if file_folder \<noteq> None \<and> lazy then
        (let w1 = snd (os_system sh
                   (gcloud_cp (fmt bucket_id @ ''/'' @ fmt file_folder @ ''/'' @ file_name)
                      (''bucket_io/'' @ fmt file_folder)) w)
         in (Inr (Frame (scan_csv (''bucket_io/'' @ fmt file_folder @ ''/'' @ file_name))), w1))
      else if file_folder = None \<and> \<not> lazy then
        (let w1 = snd (os_system sh
                   (gcloud_cp (fmt bucket_id @ ''/'' @ file_name) ''bucket_io'') w)
         in (map_sum id Frame (read_csv pl (''bucket_io/'' @ file_name) w1), w1))
      else
        (let w1 = snd (os_system sh
                   (gcloud_cp (fmt bucket_id @ ''/'' @ fmt file_folder @ ''/'' @ file_name)
                      ''bucket_io'') w)
         in (map_sum id Frame
               (read_csv pl (''bucket_io/'' @ fmt file_folder @ ''/'' @ file_name) w1), w1)))"

text \<open>
  \<open>read_from_bucket\<close>, lines 76 to 91: every file of a folder. \<open>bucket_id\<close> is still
  \<open>None\<close> here when the environment has no \<open>WORKSPACE_BUCKET\<close>; \<open>f.replace(None, ...)\<close>
  is then a \<open>TypeError\<close>.
\<close>

definition read_folder ::
  "'b shell \<Rightarrow> polars \<Rightarrow> string \<Rightarrow> string option \<Rightarrow> bool \<Rightarrow> bool \<Rightarrow> 'b world
     \<Rightarrow> (error + loaded) \<times> 'b world" where
  "read_folder sh pl file_folder bucket_id lazy stack w =
     (case ls_bucket sh (Some file_folder) bucket_id True w of
        (Inl e, w1) \<Rightarrow> (Inl e, w1)
      | (Inr file_targets, w1) \<Rightarrow>
          (let w2 = snd (os_system sh
                     (gcloud_cp (fmt bucket_id @ ''/'' @ file_folder @ ''/*.csv'')
                        (''bucket_io/'' @ file_folder)) w1)
           in case file_targets of
                None \<Rightarrow> (Inl TypeError, w2)
              | Some targets \<Rightarrow>
                  (case traverse
                          (\<lambda>f. case bucket_id of
                                 None \<Rightarrow> Inl TypeError
                               | Some b \<Rightarrow>
                                   if lazy then Inr (scan_csv (replace_str b ''bucket_io'' f))
                                   else read_csv pl (replace_str b ''bucket_io'' f) w2)
                          targets of
                     Inl e \<Rightarrow> (Inl e, w2)
                   | Inr dfs \<Rightarrow>
                       if stack \<and> lazy then
                         (case traverse (collect pl w2) dfs of
                            Inl e \<Rightarrow> (Inl e, w2)
                          | Inr collected \<Rightarrow> (map_sum id Frame (reduce vstack collected), w2))
                       else if stack then (map_sum id Frame (reduce vstack dfs), w2)
                       else (Inr (Frames dfs), w2))))"

text \<open>\<open>read_from_bucket\<close>, lines 60 and 61: the staging folder is created when missing.\<close>

definition ensure_folder :: "string option \<Rightarrow> 'b world \<Rightarrow> (error + unit) \<times> 'b world" where
  "ensure_folder file_folder w =
     (if file_folder \<noteq> None \<and> \<not> isdir (''bucket_io/'' @ fmt file_folder) w
      then makedirs (''bucket_io/'' @ fmt file_folder) w
      else (Inr (), w))"

text \<open>
  \<open>read_from_bucket(file_name=None, file_folder=None, bucket_id=None, lazy=True,
  stack=False)\<close>, lines 34 to 91.
\<close>

definition read_from_bucket ::
  "'b shell \<Rightarrow> polars \<Rightarrow> string option \<Rightarrow> string option \<Rightarrow> string option \<Rightarrow> bool \<Rightarrow> bool
     \<Rightarrow> 'b world \<Rightarrow> (error + loaded) \<times> 'b world" where
  "read_from_bucket sh pl file_name file_folder bucket_id lazy stack w =
     (if file_name = None \<and> file_folder = None then
        (Inl (ValueError ''Neither file_path nor file_folder is specified''), w)
      else if (case file_name of
                 None \<Rightarrow> False
               | Some n \<Rightarrow> last (split_on (CHR ''.'') n) \<noteq> ''csv'') then
        (Inl (ValueError ''The specified file is not csv format hence cannot be loaded''), w)
      else
        (let bucket_id = (if bucket_id = None then getenv ''WORKSPACE_BUCKET'' w else bucket_id)
         in case ensure_folder file_folder w of
              (Inl e, w0) \<Rightarrow> (Inl e, w0)
            | (Inr u, w0) \<Rightarrow>
                (case file_name of
                   Some n \<Rightarrow> read_file sh pl n file_folder bucket_id lazy w0
                 | None \<Rightarrow>
                     (case file_folder of
                        Some d \<Rightarrow> read_folder sh pl d bucket_id lazy stack w0
                      | None \<Rightarrow> (Inl TypeError, w0)))))"

text \<open>\<open>copy_to_bucket(file_name, target, bucket_id=None)\<close>, lines 94 to 121.\<close>

definition copy_to_bucket ::
  "'b shell \<Rightarrow> string \<Rightarrow> string \<Rightarrow> string option \<Rightarrow> 'b world \<Rightarrow> (error + unit) \<times> 'b world" where
  "copy_to_bucket sh file_name target bucket_id w =
     (let bucket_id = (if bucket_id = None then getenv ''WORKSPACE_BUCKET'' w else bucket_id);
          target_folder = split_on (CHR ''/'') target
      in case (if length target_folder > 1 \<and> \<not> isdir (join ''/'' (butlast target_folder)) w
               then makedirs (join ''/'' (butlast target_folder)) w
               else (Inr (), w)) of
           (Inl e, w1) \<Rightarrow> (Inl e, w1)
         | (Inr u, w1) \<Rightarrow>
             (Inr (), snd (os_system sh
                             (''gsutil cp '' @ file_name @ '' '' @ fmt bucket_id @ ''/'' @ target) w1)))"


text \<open>\<open>write_to_bucket(file, target, bucket_id=None)\<close>, lines 178 to 200.\<close>

definition write_to_bucket ::
  "'b shell \<Rightarrow> polars \<Rightarrow> dataframe \<Rightarrow> string \<Rightarrow> string option \<Rightarrow> 'b world
     \<Rightarrow> (error + unit) \<times> 'b world" where
  "write_to_bucket sh pl file target bucket_id w =
     (case write_csv pl file ''bucket_io/temp.csv'' w of
        Inl e \<Rightarrow> (Inl e, w)
      | Inr w1 \<Rightarrow> copy_to_bucket sh ''bucket_io/temp.csv'' target bucket_id w1)"

subsection \<open>The specification's reading of the local path\<close>

text \<open>
  The specification describes the local path of a listed object as the listed path with
  its leading bucket identifier exchanged for the staging root and the rest left as it
  is. This function follows those words, for comparison with \<open>replace_str\<close>.
\<close>

definition subst_prefix :: "string \<Rightarrow> string \<Rightarrow> string \<Rightarrow> string" where
  "subst_prefix old new s = (if prefix old s then new @ drop (length old) s else s)"

subsection \<open>Concrete collaborators for running the model\<close>

text \<open>
  A scripted command-line tool: a table gives, for each command it knows, the exit
  status, the output, and the local directories and files the command leaves behind.
  Any other command exits with status 1 and changes nothing.
\<close>

definition scripted ::
  "(string \<times> int \<times> string \<times> string list list \<times> (string list \<times> string) list) list \<Rightarrow> 'b shell" where
  "scripted tbl cmd w =
     (case map_of tbl cmd of
        None \<Rightarrow> (1, [], w)
      | Some (st, out, made, created) \<Rightarrow>
          (st, out, w\<lparr>dirs := dirs w \<union> set made, files := files w ++ map_of created\<rparr>))"

text \<open>
  A small CSV reader and writer: one record per non-empty line, cells separated by
  commas, the first record the header; a file without a record is an error.
\<close>

definition plain_csv :: polars where
  "plain_csv =
     \<lparr>parse_csv = (\<lambda>s. case filter (\<lambda>l. l \<noteq> []) (split_on nl s) of
                          [] \<Rightarrow> Inl ComputeError
                        | h # rs \<Rightarrow> Inr \<lparr>columns = split_on (CHR '','') h,
                                        rows = map (split_on (CHR '','')) rs\<rparr>),
      to_csv = (\<lambda>df. concat (map (\<lambda>r. join '','' r @ [nl]) (columns df # rows df)))\<rparr>"

text \<open>
  A workspace whose environment names the bucket \<open>gs://b\<close> and whose working directory
  \<open>/home\<close> is empty; the same workspace with the staging directory in place; and the
  latter without \<open>WORKSPACE_BUCKET\<close> in its environment.
\<close>

definition fresh :: "unit world" where
  "fresh = \<lparr>environ = [''WORKSPACE_BUCKET'' \<mapsto> ''gs://b''], cwd = [''home''],
            dirs = {[''home'']}, files = Map.empty, bucket = (), stdout = [], calls = []\<rparr>"

definition staged :: "unit world" where
  "staged = fresh\<lparr>dirs := {[''home''], [''home'', ''bucket_io'']}\<rparr>"


text \<open>
  A bucket \<open>gs://b\<close> with
  \<^item> a folder \<open>x\<close> of two CSV files of the same columns;
  \<^item> an empty folder \<open>empty\<close>;
  \<^item> a folder \<open>y\<close> of one CSV file and one text file;
  \<^item> a folder \<open>z\<close> of two CSV files of different columns;
  \<^item> a folder \<open>m\<close> whose one object has the bucket's name in its own;
  \<^item> an object \<open>csv\<close> at the root and a file \<open>d/a.csv\<close>.

  The tool lists the folders, copies the CSV files of a folder into its staging folder
  and the object \<open>csv\<close> into the staging root, and copies \<open>d/a.csv\<close> into whichever of the
  two target directories it is given. It also lists the local folder \<open>None/x\<close>.
\<close>

definition listing_x :: string where
  "listing_x = ''gs://b/x/a.csv'' @ [nl] @ ''gs://b/x/b.csv'' @ [nl]"

definition listing_y :: string where
  "listing_y = ''gs://b/y/a.csv'' @ [nl] @ ''gs://b/y/notes.txt'' @ [nl]"

definition listing_z :: string where
  "listing_z = ''gs://b/z/a.csv'' @ [nl] @ ''gs://b/z/c.csv'' @ [nl]"

definition listing_m :: string where
  "listing_m = ''gs://b/m/gs://b.csv'' @ [nl]"

definition a_csv :: string where
  "a_csv = ''k,v'' @ [nl] @ ''1,one'' @ [nl]"

definition b_csv :: string where
  "b_csv = ''k,v'' @ [nl] @ ''2,two'' @ [nl] @ ''3,three'' @ [nl]"

definition c_csv :: string where
  "c_csv = ''k,t'' @ [nl] @ ''4,four'' @ [nl]"

definition tool :: "unit shell" where
  "tool = scripted
     [(''gsutil ls gs://b/x'', 0, listing_x, [], []),
      (''gsutil ls gs://b/empty'', 0, [], [], []),
      (''gsutil ls gs://b/y'', 0, listing_y, [], []),
      (''gsutil ls gs://b/z'', 0, listing_z, [], []),
      (''gsutil ls gs://b/m'', 0, listing_m, [], []),
      (''gsutil ls None/x'', 0, ''None/x/a.csv'' @ [nl], [], []),
      (gcloud_cp ''gs://b/x/*.csv'' ''bucket_io/x'', 0, [], [],
         [([''home'', ''bucket_io'', ''x'', ''a.csv''], a_csv),
          ([''home'', ''bucket_io'', ''x'', ''b.csv''], b_csv)]),
      (gcloud_cp ''gs://b/y/*.csv'' ''bucket_io/y'', 0, [], [],
         [([''home'', ''bucket_io'', ''y'', ''a.csv''], a_csv)]),
      (gcloud_cp ''gs://b/z/*.csv'' ''bucket_io/z'', 0, [], [],
         [([''home'', ''bucket_io'', ''z'', ''a.csv''], a_csv),
          ([''home'', ''bucket_io'', ''z'', ''c.csv''], c_csv)]),
      (gcloud_cp ''gs://b/m/*.csv'' ''bucket_io/m'', 0, [],
         [[''home'', ''bucket_io'', ''m'', ''gs:'']],
         [([''home'', ''bucket_io'', ''m'', ''gs:'', ''b.csv''], a_csv)]),
      (gcloud_cp ''gs://b/csv'' ''bucket_io'', 0, [], [],
         [([''home'', ''bucket_io'', ''csv''], a_csv)]),
      (gcloud_cp ''gs://b/d/a.csv'' ''bucket_io'', 0, [], [],
         [([''home'', ''bucket_io'', ''a.csv''], a_csv)]),
      (gcloud_cp ''gs://b/d/a.csv'' ''bucket_io/d'', 0, [], [],
         [([''home'', ''bucket_io'', ''d'', ''a.csv''], a_csv)])]"

section \<open>Properties\<close>

subsection \<open>Strings\<close>

lemma split_on_not_Nil: "split_on c s \<noteq> []"
  by (induction s) (auto split: list.splits)

lemma split_on_no_sep: "c \<notin> set s \<Longrightarrow> split_on c s = [s]"
  by (induction s) auto

lemma split_on_append: "split_on c (a @ c # t) = split_on c a @ split_on c t"
  by (induction a) (auto split: list.splits simp: split_on_not_Nil)

text \<open>The last piece is what follows the last separator, or everything.\<close>

lemma last_split_on:
  "last (split_on c s) = s \<or> suffix (c # last (split_on c s)) s"
proof (cases "c \<in> set s")
  case False
  then show ?thesis by (simp add: split_on_no_sep)
next
  case True
  then obtain a t where s: "s = a @ c # t" and t: "c \<notin> set t"
    by (meson split_list_last)
  have "last (split_on c s) = t"
    using t by (simp add: s split_on_append split_on_not_Nil split_on_no_sep)
  then show ?thesis by (simp add: s suffix_def)
qed

lemma csv_extension:
  assumes "last (split_on (CHR ''.'') n) = ''csv''"
  shows "n = ''csv'' \<or> suffix ''.csv'' n"
  using last_split_on [of "CHR ''.''" n] assms by auto

subsection \<open>Effects of the primitives\<close>

lemmas fs_defs =
  isdir_def exists_path_def resolve_def start_def is_directory_def mkdir_def
  head_tail_def py_split_def








subsection \<open>Loading: argument checks\<close>

text \<open>
  Claim C7. \<open>read_from_bucket\<close> called with neither a file name nor a folder raises
  \<open>ValueError\<close> and does nothing else: the world it leaves is the world it found (no
  command handed to the shell, no change of the file system), whatever the bucket, the
  \<open>lazy\<close> flag and the \<open>stack\<close> flag are.
\<close>

theorem read_from_bucket_needs_name_or_folder:
  "read_from_bucket sh pl None None bucket_id lazy stack w
     = (Inl (ValueError ''Neither file_path nor file_folder is specified''), w)"
  by (simp add: read_from_bucket_def)

text \<open>
  Claim C1, as the code has it. The check of line 54 compares the piece after the last
  dot with \<open>csv\<close>, so the one name without the suffix \<open>.csv\<close> that passes is \<open>csv\<close>
  itself. For every other file name that does not end in \<open>.csv\<close> the call raises
  \<open>ValueError\<close> before anything is run: the world is unchanged, for all values of the
  other arguments.
\<close>

theorem read_from_bucket_rejects_non_csv:
  assumes "n \<noteq> ''csv''" and "\<not> suffix ''.csv'' n"
  shows "read_from_bucket sh pl (Some n) file_folder bucket_id lazy stack w
           = (Inl (ValueError ''The specified file is not csv format hence cannot be loaded''), w)"
  using assms csv_extension [of n] by (auto simp add: read_from_bucket_def)

theorem read_from_bucket_rejects_non_csv_witness:
  "''data.txt'' \<noteq> ''csv'' \<and> \<not> suffix ''.csv'' ''data.txt''
   \<and> read_from_bucket tool plain_csv (Some ''data.txt'') None None True False fresh
       = (Inl (ValueError ''The specified file is not csv format hence cannot be loaded''), fresh)"
  using read_from_bucket_rejects_non_csv
          [of "''data.txt''" tool plain_csv None None True False fresh]
  by (simp add: suffix_to_prefix)

text \<open>
  The file name \<open>csv\<close> does not end in \<open>.csv\<close>, and yet the call goes through: it hands
  a copy command to the shell and returns the parsed frame.
\<close>

theorem read_from_bucket_accepts_bare_csv:
  "\<not> suffix ''.csv'' ''csv''
   \<and> fst (read_from_bucket tool plain_csv (Some ''csv'') None None False False staged)
       = Inr (Frame (DataFrame \<lparr>columns = [''k'', ''v''], rows = [[''1'', ''one'']]\<rparr>))
   \<and> calls (snd (read_from_bucket tool plain_csv (Some ''csv'') None None False False staged))
       = [gcloud_cp ''gs://b/csv'' ''bucket_io'']"
  by (simp add: suffix_to_prefix read_from_bucket_def ensure_folder_def read_file_def
        os_system_def tool_def scripted_def staged_def fresh_def getenv_def read_csv_def
        fs_defs plain_csv_def a_csv_def nl_def gcloud_cp_def sq_def)

subsection \<open>Loading one file: where it is staged\<close>

text \<open>
  Claim C2, at the input where the code departs from it. With a file name, a folder and
  \<open>lazy=False\<close> (line 74) the copy command names \<open>bucket_io\<close> as its target, not
  \<open>bucket_io/d\<close>, while line 75 parses \<open>bucket_io/d/a.csv\<close>: the tool puts the file into
  \<open>bucket_io\<close> and the parse finds nothing. The lazy branch of the same call (line 68)
  names \<open>bucket_io/d\<close>.
\<close>

theorem read_from_bucket_eager_folder_target:
  "calls (snd (read_from_bucket tool plain_csv (Some ''a.csv'') (Some ''d'') None False False staged))
     = [gcloud_cp ''gs://b/d/a.csv'' ''bucket_io'']
   \<and> fst (read_from_bucket tool plain_csv (Some ''a.csv'') (Some ''d'') None False False staged)
     = Inl (FileNotFoundError ''bucket_io/d/a.csv'')
   \<and> calls (snd (read_from_bucket tool plain_csv (Some ''a.csv'') (Some ''d'') None True False staged))
     = [gcloud_cp ''gs://b/d/a.csv'' ''bucket_io/d'']"
  by (simp add: read_from_bucket_def ensure_folder_def fs_defs
        makedirs.simps [of "''bucket_io/d''"]
        read_file_def os_system_def tool_def scripted_def gcloud_cp_def sq_def
        staged_def fresh_def getenv_def read_csv_def scan_csv_def)

subsection \<open>Listing\<close>

text \<open>
  Claim C3. Let the listing command exit with status \<open>st\<close> and output \<open>out\<close>. With
  \<open>return_list=True\<close>: a non-zero status raises \<open>CalledProcessError\<close>; and when the status
  is zero and the decoded output, split at newlines, is \<open>N\<close> non-empty lines followed by
  one empty piece, the call returns exactly those \<open>N\<close> lines, in their order, none empty.
\<close>

theorem ls_bucket_return_list:
  assumes run: "sh (ls_cmd target (if bucket_id = None then getenv ''WORKSPACE_BUCKET'' w
                                  else bucket_id)) w = (st, out, w')"
  shows "(st \<noteq> 0 \<longrightarrow> fst (ls_bucket sh target bucket_id True w) = Inl (CalledProcessError st))
       \<and> (st = 0 \<and> decode_utf8 out = Inr txt \<and> split_on nl txt = ls @ [[]]
            \<and> (\<forall>l \<in> set ls. l \<noteq> []) \<and> length ls = N
          \<longrightarrow> (\<exists>r. fst (ls_bucket sh target bucket_id True w) = Inr (Some r)
                   \<and> r = ls \<and> length r = N \<and> (\<forall>p \<in> set r. p \<noteq> [])))"
  using run by (simp add: ls_bucket_def check_output_def)

theorem ls_bucket_return_list_witness:
  "tool (ls_cmd (Some ''x'') (if None = None then getenv ''WORKSPACE_BUCKET'' fresh else None)) fresh
     = (0, listing_x, fresh)
   \<and> decode_utf8 listing_x = Inr listing_x
   \<and> split_on nl listing_x = [''gs://b/x/a.csv'', ''gs://b/x/b.csv''] @ [[]]
   \<and> fst (ls_bucket tool (Some ''x'') None True fresh)
       = Inr (Some [''gs://b/x/a.csv'', ''gs://b/x/b.csv''])
   \<and> fst (ls_bucket tool (Some ''nowhere'') None True fresh) = Inl (CalledProcessError 1)"
proof -
  have run: "tool (ls_cmd (Some ''x'')
                     (if None = None then getenv ''WORKSPACE_BUCKET'' fresh else None)) fresh
               = (0, listing_x, fresh)"
    by (simp add: tool_def scripted_def ls_cmd_def getenv_def fresh_def)
  have dec: "decode_utf8 listing_x = Inr listing_x"
    by (simp add: decode_utf8_def listing_x_def nl_def)
  have spl: "split_on nl listing_x = [''gs://b/x/a.csv'', ''gs://b/x/b.csv''] @ [[]]"
    by (simp add: listing_x_def nl_def)
  have fail: "tool (ls_cmd (Some ''nowhere'')
                      (if None = None then getenv ''WORKSPACE_BUCKET'' fresh else None)) fresh
               = (1, [], fresh)"
    by (simp add: tool_def scripted_def ls_cmd_def getenv_def fresh_def gcloud_cp_def)
  have ok: "fst (ls_bucket tool (Some ''x'') None True fresh)
              = Inr (Some [''gs://b/x/a.csv'', ''gs://b/x/b.csv''])"
    using ls_bucket_return_list
            [of tool "Some ''x''" None fresh 0 listing_x fresh listing_x
                "[''gs://b/x/a.csv'', ''gs://b/x/b.csv'']" 2, OF run] dec spl
    by simp
  have bad: "fst (ls_bucket tool (Some ''nowhere'') None True fresh) = Inl (CalledProcessError 1)"
    using ls_bucket_return_list [of tool "Some ''nowhere''" None fresh 1 "[]" fresh, OF fail]
    by simp
  show ?thesis
    using run dec spl ok bad by blast
qed

subsection \<open>Downloading\<close>

text \<open>
  Claim C8, at an input where the code departs from it. The copy command exits with
  status 1 (the tool does not know the object), and \<open>copy_from_bucket\<close> still prints its
  line, which says the download succeeded.
\<close>

theorem copy_from_bucket_prints_after_failure:
  "fst (tool (''gsutil cp '' @ sq @ ''gs://b/missing.csv'' @ sq @ '' .'') fresh) = 1
   \<and> stdout (copy_from_bucket tool ''missing.csv'' None fresh)
       = ''[INFO] missing.csv is successfully downloaded into your working space'' @ [nl]"
  by (simp add: copy_from_bucket_def os_system_def tool_def scripted_def fresh_def getenv_def
        print_def gcloud_cp_def sq_def)

subsection \<open>Facts about the helpers\<close>

lemma replace_str_absent:
  "old \<noteq> [] \<Longrightarrow> \<not> sublist old s \<Longrightarrow> replace_str old new s = s"
  by (induction s) (auto simp: sublist_Cons_right)

lemma replace_str_leading:
  assumes "old \<noteq> []"
  shows "replace_str old new (old @ rest) = new @ replace_str old new rest"
proof -
  obtain c cs where eq: "old @ rest = c # cs"
    using assms by (cases old) auto
  have "prefix old (c # cs)" and "drop (length old) (c # cs) = rest"
    by (simp_all flip: eq)
  then show ?thesis
    using assms by (simp add: eq)
qed

text \<open>
  Where the bucket identifier occurs at the front of the path and nowhere after it,
  \<open>replace\<close> is the exchange of the prefix.
\<close>

lemma subst_prefix_replace:
  assumes "b \<noteq> []" and "prefix b f" and "\<not> sublist b (drop (length b) f)"
  shows "replace_str b new f = subst_prefix b new f"
proof -
  obtain rest where f: "f = b @ rest"
    using assms(2) by (auto simp: prefix_def)
  then have "\<not> sublist b rest"
    using assms(3) by simp
  then show ?thesis
    using assms(1) by (simp add: f replace_str_leading replace_str_absent subst_prefix_def)
qed






subsection \<open>Loading a folder, step by step\<close>

text \<open>With a folder and no file name, the call is \<open>read_folder\<close> on the world that has the
  staging folder.\<close>

lemma folder_mode_unfold:
  assumes "ensure_folder (Some d) w = (Inr (), w0)"
  shows "read_from_bucket sh pl None (Some d) bucket_id lazy stack w
           = read_folder sh pl d
               (if bucket_id = None then getenv ''WORKSPACE_BUCKET'' w else bucket_id)
               lazy stack w0"
  using assms by (simp add: read_from_bucket_def)



lemma read_folder_empty:
  assumes "fst (ls_bucket sh (Some d) bid True w0) = Inr (Some [])"
  shows "fst (read_folder sh pl d bid lazy True w0) = Inl TypeError"
  using assms
  by (cases "ls_bucket sh (Some d) bid True w0") (simp add: read_folder_def Let_def)

subsection \<open>The concrete workspace\<close>





subsection \<open>Loading a folder\<close>




text \<open>
  Claim C5, at an input where the code departs from it. The folder \<open>m\<close> lists the object
  \<open>gs://b/m/gs://b.csv\<close>. Exchanging the leading bucket identifier gives
  \<open>bucket_io/m/gs://b.csv\<close>, and there the tool has put the file. Lines 83 and 85 use
  \<open>replace\<close>, which exchanges the second occurrence too: the call scans, and with
  \<open>lazy=False\<close> fails to read, \<open>bucket_io/m/bucket_io.csv\<close>.
\<close>

theorem read_from_bucket_replaces_every_occurrence:
  "fst (ls_bucket tool (Some ''m'') None True staged) = Inr (Some [''gs://b/m/gs://b.csv''])
   \<and> subst_prefix ''gs://b'' ''bucket_io'' ''gs://b/m/gs://b.csv'' = ''bucket_io/m/gs://b.csv''
   \<and> fst (read_from_bucket tool plain_csv None (Some ''m'') None True False staged)
       = Inr (Frames [LazyFrame ''bucket_io/m/bucket_io.csv''])
   \<and> fst (read_from_bucket tool plain_csv None (Some ''m'') None False False staged)
       = Inl (FileNotFoundError ''bucket_io/m/bucket_io.csv'')
   \<and> read_csv plain_csv ''bucket_io/m/gs://b.csv''
        (snd (read_from_bucket tool plain_csv None (Some ''m'') None False False staged))
       = Inr (DataFrame \<lparr>columns = [''k'', ''v''], rows = [[''1'', ''one'']]\<rparr>)"
  by (simp add: read_from_bucket_def ensure_folder_def fs_defs
        makedirs.simps [of "''bucket_io/m''"]
        read_folder_def ls_bucket_def check_output_def os_system_def tool_def scripted_def
        ls_cmd_def decode_utf8_def listing_m_def nl_def gcloud_cp_def sq_def scan_csv_def
        read_csv_def plain_csv_def a_csv_def staged_def fresh_def getenv_def subst_prefix_def)

text \<open>
  Claim C9. Take a folder-mode call with \<open>stack=True\<close> whose listing has no object path.
  The call ends in an error, never in a frame or a sequence of frames; when the staging
  folder is there or can be made, the error is the \<open>TypeError\<close> of \<open>reduce\<close> on an empty
  sequence.
\<close>

theorem read_from_bucket_stack_empty_listing:
  assumes "\<forall>w0. ensure_folder (Some d) w = (Inr (), w0) \<longrightarrow>
             fst (ls_bucket sh (Some d)
                    (if bucket_id = None then getenv ''WORKSPACE_BUCKET'' w else bucket_id)
                    True w0)
               = Inr (Some [])"
  shows "(\<exists>e. fst (read_from_bucket sh pl None (Some d) bucket_id lazy True w) = Inl e)
       \<and> ((\<exists>w0. ensure_folder (Some d) w = (Inr (), w0)) \<longrightarrow>
            fst (read_from_bucket sh pl None (Some d) bucket_id lazy True w) = Inl TypeError)"
proof -
  obtain r w0 where ens: "ensure_folder (Some d) w = (r, w0)"
    by (cases "ensure_folder (Some d) w")
  show ?thesis
  proof (cases r)
    case (Inl e)
    then show ?thesis
      using ens by (simp add: read_from_bucket_def)
  next
    case (Inr u)
    then have "ensure_folder (Some d) w = (Inr (), w0)"
      using ens by simp
    then show ?thesis
      using assms by (simp add: folder_mode_unfold read_folder_empty)
  qed
qed

theorem read_from_bucket_stack_empty_listing_witness:
  "ensure_folder (Some ''empty'') fresh
     = (Inr (), fresh\<lparr>dirs := {[''home''], [''home'', ''bucket_io''],
                                 [''home'', ''bucket_io'', ''empty'']}\<rparr>)
   \<and> fst (ls_bucket tool (Some ''empty'') None True
            (fresh\<lparr>dirs := {[''home''], [''home'', ''bucket_io''],
                               [''home'', ''bucket_io'', ''empty'']}\<rparr>)) = Inr (Some [])
   \<and> fst (read_from_bucket tool plain_csv None (Some ''empty'') None True True fresh)
       = Inl TypeError"
proof -
  have ls: "fst (ls_bucket tool (Some ''empty'')
                   (if None = None then getenv ''WORKSPACE_BUCKET'' fresh else None) True w0)
              = Inr (Some [])" for w0 :: "unit world"
    by (simp add: ls_bucket_def check_output_def tool_def scripted_def ls_cmd_def getenv_def
          fresh_def decode_utf8_def)
  then have h: "\<forall>w0. ensure_folder (Some ''empty'') fresh = (Inr (), w0) \<longrightarrow>
          fst (ls_bucket tool (Some ''empty'')
                 (if None = None then getenv ''WORKSPACE_BUCKET'' fresh else None) True w0)
            = Inr (Some [])"
    by blast
  have e: "ensure_folder (Some ''empty'') fresh
             = (Inr (), fresh\<lparr>dirs := {[''home''], [''home'', ''bucket_io''],
                                         [''home'', ''bucket_io'', ''empty'']}\<rparr>)"
    by (simp add: ensure_folder_def fs_defs makedirs.simps [of "''bucket_io/empty''"]
          makedirs.simps [of "''bucket_io''"] fresh_def insert_commute)
  have l: "fst (ls_bucket tool (Some ''empty'') None True
                  (fresh\<lparr>dirs := {[''home''], [''home'', ''bucket_io''],
                                     [''home'', ''bucket_io'', ''empty'']}\<rparr>)) = Inr (Some [])"
    by (simp add: ls_bucket_def check_output_def tool_def scripted_def ls_cmd_def getenv_def
          fresh_def decode_utf8_def)
  show ?thesis
    using e l read_from_bucket_stack_empty_listing [OF h, of plain_csv True] by blast
qed

subsection \<open>The default bucket\<close>









subsection \<open>Writing\<close>

text \<open>
  Claim C10. \<open>write_to_bucket\<close> writes \<open>bucket_io/temp.csv\<close> first and creates no
  directory for it. When \<open>bucket_io\<close> is not a directory at the call, the call fails with
  a file-system error (\<open>FileNotFoundError\<close>, or a plain \<open>OSError\<close> when a regular file
  has that name) and the world is left as it was: no command has been handed to the
  shell, and the bucket is unchanged.
\<close>

theorem write_to_bucket_without_staging:
  assumes "\<not> isdir ''bucket_io'' w"
  shows "(fst (write_to_bucket sh pl file target bucket_id w)
            = Inl (FileNotFoundError ''bucket_io/temp.csv'')
          \<or> fst (write_to_bucket sh pl file target bucket_id w)
            = Inl (OSError ''bucket_io/temp.csv''))
       \<and> snd (write_to_bucket sh pl file target bucket_id w) = w
       \<and> calls (snd (write_to_bucket sh pl file target bucket_id w)) = calls w
       \<and> bucket (snd (write_to_bucket sh pl file target bucket_id w)) = bucket w"
proof -
  have "\<exists>e. resolve ''bucket_io/temp.csv'' w = Inl e"
    using assms by (auto simp add: isdir_def resolve_def start_def split: if_splits)
  then obtain e where "resolve ''bucket_io/temp.csv'' w = Inl e"
    by blast
  then have "write_csv pl file ''bucket_io/temp.csv'' w
               = Inl (polars_error e ''bucket_io/temp.csv'')"
    by (simp add: write_csv_def write_file_def)
  then show ?thesis
    by (cases e) (simp_all add: write_to_bucket_def)
qed

theorem write_to_bucket_without_staging_witness:
  "\<not> isdir ''bucket_io'' fresh
   \<and> fst (write_to_bucket tool plain_csv \<lparr>columns = [''k''], rows = [[''1'']]\<rparr>
            ''datasets/fitbit.csv'' None fresh)
       = Inl (FileNotFoundError ''bucket_io/temp.csv'')
   \<and> snd (write_to_bucket tool plain_csv \<lparr>columns = [''k''], rows = [[''1'']]\<rparr>
            ''datasets/fitbit.csv'' None fresh)
       = fresh"
proof -
  have h: "\<not> isdir ''bucket_io'' fresh"
    by (simp add: fs_defs fresh_def)
  have "fst (write_to_bucket tool plain_csv \<lparr>columns = [''k''], rows = [[''1'']]\<rparr>
               ''datasets/fitbit.csv'' None fresh)
       \<noteq> Inl (OSError ''bucket_io/temp.csv'')"
    by (simp add: write_to_bucket_def write_csv_def write_file_def fs_defs fresh_def)
  then show ?thesis
    using h write_to_bucket_without_staging
              [OF h, of tool plain_csv "\<lparr>columns = [''k''], rows = [[''1'']]\<rparr>"
                 "''datasets/fitbit.csv''" None]
    by blast
qed

end
